theory Spec2Isabelle
  imports Main
begin

section \<open>Values and exceptions of the scoring code\<close>

text \<open>
  \<^verbatim>\<open>calculate_risk\<close> of \<^verbatim>\<open>app.py\<close> is called with the values of the
  number widgets and the select box (integers and a label), and, in batch mode, with the
  cells of an uploaded table, which may hold text where a number is expected. A value is
  therefore an integer, a text, or the missing-value marker of the table library. Fractional
  numbers are outside this model: the data model of the specification declares the three
  numeric inputs as integers.
\<close>

datatype pyval = PInt int | PStr string | PNaN

text \<open>
  The two exceptions the scoring code can raise: comparing a text with a number, and
  looking up a key that a dictionary (or a table) does not have.
\<close>

datatype exn = TypeError | KeyError pyval

text \<open>Sequencing of steps that may raise: the first exception ends the run.\<close>

definition and_then :: "exn + 'a \<Rightarrow> ('a \<Rightarrow> exn + 'b) \<Rightarrow> exn + 'b" where
  "and_then r f = (case r of Inl e \<Rightarrow> Inl e | Inr v \<Rightarrow> f v)"

text \<open>
  The comparison \<^verbatim>\<open>x >= k\<close> against an integer literal: it holds or not for an
  integer, is false for the missing-value marker and raises for a text.
\<close>

fun py_ge :: "pyval \<Rightarrow> int \<Rightarrow> exn + bool" where
  "py_ge (PInt n) k = Inr (k \<le> n)"
| "py_ge PNaN k = Inr False"
| "py_ge (PStr s) k = Inl TypeError"

section \<open>The rule-based calculator\<close>

text \<open>
  The dictionary literal \<^verbatim>\<open>{"Light": 1, "Moderate": 2, "Heavy": 3}\<close> and the
  subscript \<^verbatim>\<open>activity_scores[activity]\<close>, which raises on an absent key.
\<close>

definition activity_scores :: "(string \<times> int) list" where
  "activity_scores = [(''Light'', 1), (''Moderate'', 2), (''Heavy'', 3)]"

fun activity_lookup :: "pyval \<Rightarrow> exn + int" where
  "activity_lookup (PStr a) =
     (case map_of activity_scores a of None \<Rightarrow> Inl (KeyError (PStr a)) | Some p \<Rightarrow> Inr p)"
| "activity_lookup v = Inl (KeyError v)"

text \<open>
  The body of \<^verbatim>\<open>calculate_risk\<close> is four statements that each add to the running
  \<^verbatim>\<open>risk_score\<close>, followed by the choice of the level. Each statement is a function of
  the input it reads and of the running score.
\<close>

definition temp_step :: "pyval \<Rightarrow> int \<Rightarrow> exn + int" where
  "temp_step temp risk_score =
     and_then (py_ge temp 40) (\<lambda>hot.
       if hot then Inr (risk_score + 3)
       else and_then (py_ge temp 35) (\<lambda>warm.
         if warm then Inr (risk_score + 2) else Inr risk_score))"

definition humidity_step :: "pyval \<Rightarrow> int \<Rightarrow> exn + int" where
  "humidity_step humidity risk_score =
     and_then (py_ge humidity 70) (\<lambda>humid.
       if humid then Inr (risk_score + 2) else Inr risk_score)"

definition hours_step :: "pyval \<Rightarrow> int \<Rightarrow> exn + int" where
  "hours_step hours risk_score =
     and_then (py_ge hours 6) (\<lambda>long.
       if long then Inr (risk_score + 2) else Inr risk_score)"

definition activity_step :: "pyval \<Rightarrow> int \<Rightarrow> exn + int" where
  "activity_step activity risk_score =
     and_then (activity_lookup activity) (\<lambda>p. Inr (risk_score + p))"

definition level_of :: "int \<Rightarrow> string" where
  "level_of risk_score =
     (if 8 \<le> risk_score then ''High''
      else if 5 \<le> risk_score then ''Moderate''
      else ''Low'')"

definition calculate_risk :: "pyval \<Rightarrow> pyval \<Rightarrow> pyval \<Rightarrow> pyval \<Rightarrow> exn + (string \<times> int)" where
  "calculate_risk temp humidity hours activity =
     and_then (temp_step temp 0) (\<lambda>s1.
     and_then (humidity_step humidity s1) (\<lambda>s2.
     and_then (hours_step hours s2) (\<lambda>s3.
     and_then (activity_step activity s3) (\<lambda>risk_score.
       Inr (level_of risk_score, risk_score)))))"

text \<open>
  The contribution of a factor is what its statement adds to the running score. The
  following four functions are the rule table of the specification, against which the
  statements of the code are compared.
\<close>

definition spec_temperature_points :: "int \<Rightarrow> int" where
  "spec_temperature_points t = (if 40 \<le> t then 3 else if 35 \<le> t then 2 else 0)"

definition spec_humidity_points :: "int \<Rightarrow> int" where
  "spec_humidity_points h = (if 70 \<le> h then 2 else 0)"

definition spec_duration_points :: "int \<Rightarrow> int" where
  "spec_duration_points d = (if 6 \<le> d then 2 else 0)"

definition spec_activity_points :: "string \<Rightarrow> int" where
  "spec_activity_points a =
     (if a = ''Light'' then 1 else if a = ''Moderate'' then 2 else if a = ''Heavy'' then 3 else 0)"

definition activities :: "string set" where
  "activities = {''Light'', ''Moderate'', ''Heavy''}"

text \<open>The order Low < Moderate < High on the three level names.\<close>

definition level_rank :: "string \<Rightarrow> nat option" where
  "level_rank l =
     (if l = ''Low'' then Some 0
      else if l = ''Moderate'' then Some 1
      else if l = ''High'' then Some 2
      else None)"

section \<open>Batch analysis\<close>

text \<open>
  The uploaded table as the table library holds it: the column names in file order and the
  rows in file order, each row being its index label and its cells, one cell per column.
  The reader of the file labels the rows \<open>0, 1, \<dots>\<close> when every data line has as many
  fields as the header; when the data lines have one field more, it takes the first field
  of each line as the label of the row.
\<close>

record dataframe =
  columns :: "string list"
  rows :: "(pyval \<times> pyval list) list"

text \<open>The default index of a table of \<open>n\<close> rows.\<close>

definition default_index :: "nat \<Rightarrow> pyval list" where
  "default_index n = map (\<lambda>i. PInt (int i)) [0..<n]"

definition required_columns :: "string list" where
  "required_columns = [''temperature'', ''humidity'', ''duration'', ''activity'']"

text \<open>
  \<^verbatim>\<open>row['temperature']\<close>: the row that the iteration yields is labelled by the column
  names; an absent label raises.
\<close>

definition row_get :: "string list \<Rightarrow> pyval list \<Rightarrow> string \<Rightarrow> exn + pyval" where
  "row_get cols r c =
     (case map_of (zip cols r) c of None \<Rightarrow> Inl (KeyError (PStr c)) | Some v \<Rightarrow> Inr v)"

text \<open>
  The body of the loop. First the call
  \<^verbatim>\<open>calculate_risk(row['temperature'], row['humidity'], row['duration'], row['activity'])\<close>,
  whose four subscripts are evaluated left to right before the call; then the dictionary
  that is appended to \<^verbatim>\<open>results\<close>.
\<close>

definition row_risk :: "string list \<Rightarrow> pyval list \<Rightarrow> exn + (string \<times> int)" where
  "row_risk cols r =
     and_then (row_get cols r ''temperature'') (\<lambda>t.
     and_then (row_get cols r ''humidity'') (\<lambda>h.
     and_then (row_get cols r ''duration'') (\<lambda>d.
     and_then (row_get cols r ''activity'') (\<lambda>a.
       calculate_risk t h d a))))"

definition row_result :: "string list \<Rightarrow> pyval list \<Rightarrow> exn + (string \<times> pyval) list" where
  "row_result cols r =
     and_then (row_risk cols r) (\<lambda>(risk_level, risk_score).
       Inr [(''risk_level'', PStr risk_level), (''risk_score'', PInt risk_score)])"

text \<open>
  \<^verbatim>\<open>for _, row in batch_df.iterrows(): ... results.append(...)\<close>: the iteration
  yields the label and the cells of each row in file order, and the loop ignores the label.
\<close>

fun iterrows_loop ::
  "string list \<Rightarrow> (pyval \<times> pyval list) list \<Rightarrow> (string \<times> pyval) list list
    \<Rightarrow> exn + (string \<times> pyval) list list" where
  "iterrows_loop cols [] results = Inr results"
| "iterrows_loop cols ((label, r) # rs) results =
     (case row_result cols r of
        Inl e \<Rightarrow> Inl e
      | Inr entry \<Rightarrow> iterrows_loop cols rs (results @ [entry]))"

text \<open>
  \<^verbatim>\<open>pd.DataFrame(results)\<close> on a list of dictionaries: the columns are the keys in the
  order they first appear, every dictionary is one row, a key a dictionary lacks is a
  missing value, and the rows get the default index. The empty list gives a table with no
  column and no row.
\<close>

fun add_keys :: "string list \<Rightarrow> string list \<Rightarrow> string list" where
  "add_keys seen [] = seen"
| "add_keys seen (k # ks) = add_keys (if k \<in> set seen then seen else seen @ [k]) ks"

definition DataFrame :: "(string \<times> pyval) list list \<Rightarrow> dataframe" where
  "DataFrame ds =
     (let cols = fold (\<lambda>d seen. add_keys seen (map fst d)) ds []
      in \<lparr>columns = cols,
          rows = zip (default_index (length ds))
                   (map (\<lambda>d. map (\<lambda>c. case map_of d c of None \<Rightarrow> PNaN | Some v \<Rightarrow> v) cols) ds)\<rparr>)"

fun index_of :: "string \<Rightarrow> string list \<Rightarrow> nat option" where
  "index_of c [] = None"
| "index_of c (x # xs) = (if c = x then Some 0 else map_option Suc (index_of c xs))"

text \<open>The value at position \<open>i\<close> of a sequence of cells, the missing value beyond its end.\<close>

definition cell_at :: "pyval list \<Rightarrow> nat \<Rightarrow> pyval" where
  "cell_at vs i = (if i < length vs then vs ! i else PNaN)"

text \<open>
  \<^verbatim>\<open>df['name']\<close> read: the column as a series, that is the cells of the column
  with the index labels of their rows; an absent column raises.
\<close>

definition getitem_column :: "dataframe \<Rightarrow> string \<Rightarrow> exn + (pyval \<times> pyval) list" where
  "getitem_column df c =
     (case index_of c (columns df) of
        None \<Rightarrow> Inl (KeyError (PStr c))
      | Some j \<Rightarrow> Inr (map (\<lambda>(label, r). (label, cell_at r j)) (rows df)))"

text \<open>The value a series holds for an index label, the missing value for a label it lacks.\<close>

definition series_at :: "(pyval \<times> pyval) list \<Rightarrow> pyval \<Rightarrow> pyval" where
  "series_at series label = (case map_of series label of None \<Rightarrow> PNaN | Some v \<Rightarrow> v)"

text \<open>
  \<^verbatim>\<open>df['name'] = series\<close>: the series is aligned with the table on the index labels,
  not on the position, so every row receives the value that the series holds for the label
  of that row, and the missing value when the series has no such label. The number and the
  order of the rows of the table never change. An existing column of that name is
  overwritten where it stands; otherwise the column is added as the last one.
\<close>

definition setitem_column :: "dataframe \<Rightarrow> string \<Rightarrow> (pyval \<times> pyval) list \<Rightarrow> dataframe" where
  "setitem_column df c series =
     (case index_of c (columns df) of
        None \<Rightarrow>
          \<lparr>columns = columns df @ [c],
           rows = map (\<lambda>(label, r). (label, r @ [series_at series label])) (rows df)\<rparr>
      | Some j \<Rightarrow>
          \<lparr>columns = columns df,
           rows = map (\<lambda>(label, r). (label, r[j := series_at series label])) (rows df)\<rparr>)"

text \<open>
  What the batch page shows for an uploaded table: the error box, or the table with the two
  result columns (which is also what the download holds). An exception that escapes is the
  \<open>Inl\<close> case.
\<close>

datatype batch_page = StError string | StDataframe dataframe

definition batch_analysis :: "dataframe \<Rightarrow> exn + batch_page" where
  "batch_analysis batch_df =
     (if list_all (\<lambda>col. col \<in> set (columns batch_df)) required_columns then
        and_then (iterrows_loop (columns batch_df) (rows batch_df) []) (\<lambda>results.
        let results_df = DataFrame results in
        and_then (getitem_column results_df ''risk_level'') (\<lambda>levels.
        let batch_df1 = setitem_column batch_df ''risk_level'' levels in
        and_then (getitem_column results_df ''risk_score'') (\<lambda>scores.
        Inr (StDataframe (setitem_column batch_df1 ''risk_score'' scores)))))
      else Inr (StError ''CSV must contain: temperature, humidity, duration, activity columns''))"

text \<open>
  Notions of the specification about a batch: the required columns a table lacks, and a
  row whose four fields are valid (integers in the declared ranges and a known activity).
\<close>

definition missing_columns :: "dataframe \<Rightarrow> string list" where
  "missing_columns df = filter (\<lambda>c. c \<notin> set (columns df)) required_columns"

fun int_between :: "int \<Rightarrow> int \<Rightarrow> pyval \<Rightarrow> bool" where
  "int_between lo hi (PInt n) = (lo \<le> n \<and> n \<le> hi)"
| "int_between lo hi v = False"

fun known_activity :: "pyval \<Rightarrow> bool" where
  "known_activity (PStr a) = (a \<in> activities)"
| "known_activity v = False"

definition field_is :: "string list \<Rightarrow> pyval list \<Rightarrow> string \<Rightarrow> (pyval \<Rightarrow> bool) \<Rightarrow> bool" where
  "field_is cols r c P = (case row_get cols r c of Inl e \<Rightarrow> False | Inr v \<Rightarrow> P v)"

definition valid_row :: "string list \<Rightarrow> pyval list \<Rightarrow> bool" where
  "valid_row cols r \<longleftrightarrow>
     field_is cols r ''temperature'' (int_between 25 50) \<and>
     field_is cols r ''humidity'' (int_between 30 90) \<and>
     field_is cols r ''duration'' (int_between 1 10) \<and>
     field_is cols r ''activity'' known_activity"

text \<open>The shape of the dictionaries that the loop appends to \<^verbatim>\<open>results\<close>.\<close>

definition result_entry :: "(string \<times> pyval) list \<Rightarrow> bool" where
  "result_entry e \<longleftrightarrow> (\<exists>lvl sc. e = [(''risk_level'', PStr lvl), (''risk_score'', PInt sc)])"

section \<open>Facts about the statements of the calculator\<close>

lemma temp_step_int: "temp_step (PInt t) s = Inr (s + spec_temperature_points t)"
  by (simp add: temp_step_def and_then_def spec_temperature_points_def)

lemma humidity_step_int: "humidity_step (PInt h) s = Inr (s + spec_humidity_points h)"
  by (simp add: humidity_step_def and_then_def spec_humidity_points_def)

lemma hours_step_int: "hours_step (PInt d) s = Inr (s + spec_duration_points d)"
  by (simp add: hours_step_def and_then_def spec_duration_points_def)

lemma map_of_activity_scores:
  "map_of activity_scores a =
     (if a = ''Light'' then Some 1 else if a = ''Moderate'' then Some 2
      else if a = ''Heavy'' then Some 3 else None)"
  by (simp add: activity_scores_def)

lemma activity_step_known:
  "a \<in> activities \<Longrightarrow> activity_step (PStr a) s = Inr (s + spec_activity_points a)"
  by (auto simp add: activity_step_def and_then_def map_of_activity_scores
      spec_activity_points_def activities_def)

lemma activity_lookup_unknown:
  "activity \<notin> PStr ` activities \<Longrightarrow> activity_lookup activity = Inl (KeyError activity)"
  by (cases activity) (auto simp add: map_of_activity_scores activities_def)

lemma calculate_risk_ints:
  assumes "a \<in> activities"
  shows "calculate_risk (PInt t) (PInt h) (PInt d) (PStr a) =
    Inr (level_of (spec_temperature_points t + spec_humidity_points h + spec_duration_points d
                   + spec_activity_points a),
         spec_temperature_points t + spec_humidity_points h + spec_duration_points d
                   + spec_activity_points a)"
  using assms
  by (simp add: calculate_risk_def temp_step_int humidity_step_int hours_step_int
      activity_step_known and_then_def)

lemma spec_points_bounds:
  "0 \<le> spec_temperature_points t" "spec_temperature_points t \<le> 3"
  "0 \<le> spec_humidity_points h" "spec_humidity_points h \<le> 2"
  "0 \<le> spec_duration_points d" "spec_duration_points d \<le> 2"
  by (simp_all add: spec_temperature_points_def spec_humidity_points_def spec_duration_points_def)

lemma spec_activity_points_bounds:
  "a \<in> activities \<Longrightarrow> 1 \<le> spec_activity_points a \<and> spec_activity_points a \<le> 3"
  by (auto simp add: spec_activity_points_def activities_def)

lemma calculate_risk_level:
  "calculate_risk temp humidity hours activity = Inr (lvl, sc) \<Longrightarrow> lvl = level_of sc"
  by (auto simp add: calculate_risk_def and_then_def split: sum.splits)

lemma level_of_cases:
  "(level_of s = ''High'' \<longleftrightarrow> 8 \<le> s)"
  "(level_of s = ''Moderate'' \<longleftrightarrow> 5 \<le> s \<and> s \<le> 7)"
  "(level_of s = ''Low'' \<longleftrightarrow> s \<le> 4)"
  by (auto simp add: level_of_def)

lemma sample_heavy:
  "calculate_risk (PInt 40) (PInt 75) (PInt 6) (PStr ''Heavy'') = Inr (''High'', 10)"
  by (simp add: calculate_risk_def temp_step_def humidity_step_def hours_step_def
      activity_step_def and_then_def activity_scores_def level_of_def)

section \<open>Facts about the batch loop and the table operations\<close>

lemma field_isD:
  "field_is cols r c P \<Longrightarrow> \<exists>v. row_get cols r c = Inr v \<and> P v \<and> c \<in> set cols"
  by (auto simp add: field_is_def row_get_def split: sum.splits option.splits
      dest!: map_of_SomeD set_zip_leftD)

lemma int_betweenD: "int_between lo hi v \<Longrightarrow> \<exists>n. v = PInt n \<and> lo \<le> n \<and> n \<le> hi"
  by (cases v) auto

lemma known_activityD: "known_activity v \<Longrightarrow> \<exists>a. v = PStr a \<and> a \<in> activities"
  by (cases v) auto

lemma valid_row_risk:
  assumes "valid_row cols r"
  shows "\<exists>sc. row_risk cols r = Inr (level_of sc, sc)"
proof -
  from assms obtain t h d a where
    g: "row_get cols r ''temperature'' = Inr (PInt t)" "row_get cols r ''humidity'' = Inr (PInt h)"
       "row_get cols r ''duration'' = Inr (PInt d)" "row_get cols r ''activity'' = Inr (PStr a)"
    and a: "a \<in> activities"
    unfolding valid_row_def
    by (auto dest!: field_isD int_betweenD known_activityD)
  show ?thesis
    using calculate_risk_ints[OF a, of t h d]
    by (simp add: row_risk_def g and_then_def)
qed

lemma valid_row_columns:
  "valid_row cols r \<Longrightarrow> list_all (\<lambda>col. col \<in> set cols) required_columns"
  unfolding valid_row_def required_columns_def
  by (auto dest!: field_isD)

lemma iterrows_loop_valid:
  assumes "list_all (\<lambda>row. valid_row cols (snd row)) rs"
  shows "\<exists>es. iterrows_loop cols rs acc = Inr (acc @ es) \<and>
              list_all2 (\<lambda>row e. \<exists>lvl sc. row_risk cols (snd row) = Inr (lvl, sc) \<and>
                   e = [(''risk_level'', PStr lvl), (''risk_score'', PInt sc)]) rs es"
  using assms
proof (induction rs arbitrary: acc)
  case Nil
  then show ?case by simp
next
  case (Cons lr rs)
  obtain label r where lr: "lr = (label, r)" by (cases lr)
  from Cons.prems have v: "valid_row cols r"
    and vs: "list_all (\<lambda>row. valid_row cols (snd row)) rs" by (simp_all add: lr)
  from valid_row_risk[OF v] obtain sc where rr: "row_risk cols r = Inr (level_of sc, sc)" ..
  let ?e = "[(''risk_level'', PStr (level_of sc)), (''risk_score'', PInt sc)]"
  have res: "row_result cols r = Inr ?e"
    by (simp add: row_result_def rr and_then_def)
  from Cons.IH[OF vs, of "acc @ [?e]"] obtain es where
    l: "iterrows_loop cols rs (acc @ [?e]) = Inr ((acc @ [?e]) @ es)" and
    a: "list_all2 (\<lambda>row e. \<exists>lvl sc. row_risk cols (snd row) = Inr (lvl, sc) \<and>
                   e = [(''risk_level'', PStr lvl), (''risk_score'', PInt sc)]) rs es"
    by blast
  show ?case
    apply (rule exI[of _ "?e # es"])
    using l a rr by (simp add: res lr)
qed

lemma fold_add_keys_entries:
  assumes "list_all result_entry es"
  shows "fold (\<lambda>d seen. add_keys seen (map fst d)) es [''risk_level'', ''risk_score'']
           = [''risk_level'', ''risk_score'']"
  using assms by (induction es) (auto simp add: result_entry_def)

lemma DataFrame_entries:
  assumes "list_all result_entry es" and "es \<noteq> []"
  shows "DataFrame es = \<lparr>columns = [''risk_level'', ''risk_score''],
                         rows = zip (default_index (length es)) (map (map snd) es)\<rparr>"
proof -
  from assms(2) obtain e es' where es: "es = e # es'" by (cases es) auto
  with assms(1) have e: "result_entry e" and es': "list_all result_entry es'" by simp_all
  have cols: "fold (\<lambda>d seen. add_keys seen (map fst d)) es [] = [''risk_level'', ''risk_score'']"
    using e fold_add_keys_entries[OF es'] by (auto simp add: es result_entry_def)
  have cells: "map (\<lambda>d. map (\<lambda>c. case map_of d c of None \<Rightarrow> PNaN | Some v \<Rightarrow> v)
              [''risk_level'', ''risk_score'']) es = map (map snd) es"
    using assms(1) by (induction es) (auto simp add: result_entry_def)
  show ?thesis unfolding DataFrame_def Let_def cols cells ..
qed

lemma getitem_column_entries:
  assumes "list_all result_entry es" and "es \<noteq> []"
  shows "getitem_column (DataFrame es) ''risk_level''
           = Inr (zip (default_index (length es)) (map (\<lambda>e. snd (e ! 0)) es))"
    and "getitem_column (DataFrame es) ''risk_score''
           = Inr (zip (default_index (length es)) (map (\<lambda>e. snd (e ! Suc 0)) es))"
proof -
  let ?D = "default_index (length es)"
  have c: "map (\<lambda>(label, r). (label, g r)) (zip ls rs) = zip ls (map g rs)"
    for g :: "pyval list \<Rightarrow> pyval" and ls :: "pyval list" and rs
    by (induction ls rs rule: list_induct2') auto
  have k0: "map (\<lambda>r. cell_at r 0) (map (map snd) es) = map (\<lambda>e. snd (e ! 0)) es"
    and k1: "map (\<lambda>r. cell_at r (Suc 0)) (map (map snd) es) = map (\<lambda>e. snd (e ! Suc 0)) es"
    using assms(1) by (auto simp add: cell_at_def list_all_iff result_entry_def)
  have g0: "getitem_column \<lparr>columns = [''risk_level'', ''risk_score''],
                            rows = zip ?D (map (map snd) es)\<rparr> ''risk_level''
              = Inr (map (\<lambda>(label, r). (label, cell_at r 0)) (zip ?D (map (map snd) es)))"
    and g1: "getitem_column \<lparr>columns = [''risk_level'', ''risk_score''],
                            rows = zip ?D (map (map snd) es)\<rparr> ''risk_score''
              = Inr (map (\<lambda>(label, r). (label, cell_at r (Suc 0))) (zip ?D (map (map snd) es)))"
    by (simp_all add: getitem_column_def)
  show "getitem_column (DataFrame es) ''risk_level''
           = Inr (zip ?D (map (\<lambda>e. snd (e ! 0)) es))"
    unfolding DataFrame_entries[OF assms] g0 c k0 ..
  show "getitem_column (DataFrame es) ''risk_score''
           = Inr (zip ?D (map (\<lambda>e. snd (e ! Suc 0)) es))"
    unfolding DataFrame_entries[OF assms] g1 c k1 ..
qed

lemma series_at_default_index:
  assumes "i < n" and "length vs = n"
  shows "series_at (zip (default_index n) vs) (PInt (int i)) = vs ! i"
proof -
  have d: "distinct (default_index n)"
    by (simp add: default_index_def distinct_map inj_on_def)
  have l: "length (default_index n) = length vs" using assms(2) by (simp add: default_index_def)
  have "default_index n ! i = PInt (int i)" using assms(1) by (simp add: default_index_def)
  with map_of_zip_nth[OF l d, of i] assms show ?thesis by (simp add: series_at_def)
qed

lemma index_of_None: "c \<notin> set cols \<Longrightarrow> index_of c cols = None"
  by (induction cols) auto

lemma setitem_column_new:
  assumes "c \<notin> set (columns df)" and "map fst (rows df) = default_index (length (rows df))"
    and "length vs = length (rows df)"
  shows "setitem_column df c (zip (default_index (length (rows df))) vs) =
           \<lparr>columns = columns df @ [c],
            rows = map2 (\<lambda>(label, r) v. (label, r @ [v])) (rows df) vs\<rparr>"
proof -
  let ?n = "length (rows df)"
  have "map (\<lambda>(label, r). (label, r @ [series_at (zip (default_index ?n) vs) label])) (rows df)
          = map2 (\<lambda>(label, r) v. (label, r @ [v])) (rows df) vs"
  proof (rule nth_equalityI)
    show "length (map (\<lambda>(label, r). (label, r @ [series_at (zip (default_index ?n) vs) label]))
             (rows df)) = length (map2 (\<lambda>(label, r) v. (label, r @ [v])) (rows df) vs)"
      using assms(3) by simp
  next
    fix i
    assume "i < length (map (\<lambda>(label, r).
                (label, r @ [series_at (zip (default_index ?n) vs) label])) (rows df))"
    then have i: "i < ?n" by simp
    have "fst (rows df ! i) = default_index ?n ! i"
      using assms(2) i by (metis nth_map)
    then have "fst (rows df ! i) = PInt (int i)" using i by (simp add: default_index_def)
    with i assms(3) series_at_default_index[OF i assms(3)]
    show "map (\<lambda>(label, r). (label, r @ [series_at (zip (default_index ?n) vs) label]))
             (rows df) ! i = map2 (\<lambda>(label, r) v. (label, r @ [v])) (rows df) vs ! i"
      by (simp add: case_prod_beta)
  qed
  then show ?thesis by (simp add: setitem_column_def index_of_None[OF assms(1)])
qed

lemma map_fst_with_cells:
  "length vs = length rs \<Longrightarrow> map fst (map2 (\<lambda>(label, r) v. (label, g r v)) rs vs) = map fst rs"
  by (induction rs vs rule: list_induct2') auto

lemma append_result_cells:
  assumes "list_all result_entry es" and "length es = length rs"
  shows "map2 (\<lambda>(label, r) v. (label, r @ [v]))
           (map2 (\<lambda>(label, r) v. (label, r @ [v])) rs (map (\<lambda>e. snd (e ! 0)) es))
           (map (\<lambda>e. snd (e ! Suc 0)) es)
         = map2 (\<lambda>(label, r) e. (label, r @ map snd e)) rs es"
  using assms
proof (induction rs arbitrary: es)
  case Nil
  then show ?case by simp
next
  case (Cons r rs)
  then obtain e es' where es: "es = e # es'" by (cases es) auto
  with Cons.prems have e: "result_entry e" and rest: "list_all result_entry es'"
    and len: "length es' = length rs"
    by simp_all
  from e have "[snd (e ! 0), snd (e ! Suc 0)] = map snd e"
    by (auto simp add: result_entry_def)
  with Cons.IH[OF rest len] show ?case by (simp add: es case_prod_beta)
qed

lemma batch_analysis_valid:
  assumes ne: "rows df \<noteq> []"
    and valid: "list_all (\<lambda>row. valid_row (columns df) (snd row)) (rows df)"
    and fresh: "''risk_level'' \<notin> set (columns df)" "''risk_score'' \<notin> set (columns df)"
    and idx: "map fst (rows df) = default_index (length (rows df))"
  shows "\<exists>es. list_all2 (\<lambda>row e. \<exists>lvl sc. row_risk (columns df) (snd row) = Inr (lvl, sc) \<and>
                   e = [(''risk_level'', PStr lvl), (''risk_score'', PInt sc)]) (rows df) es \<and>
          batch_analysis df = Inr (StDataframe
            \<lparr>columns = columns df @ [''risk_level'', ''risk_score''],
             rows = map2 (\<lambda>(label, r) e. (label, r @ map snd e)) (rows df) es\<rparr>)"
proof -
  let ?n = "length (rows df)"
  from ne obtain row rs where rows: "rows df = row # rs" by (cases "rows df") auto
  with valid have "valid_row (columns df) (snd row)" by simp
  then have req: "list_all (\<lambda>col. col \<in> set (columns df)) required_columns"
    by (rule valid_row_columns)
  from iterrows_loop_valid[OF valid, of "[]"] obtain es where
    loop: "iterrows_loop (columns df) (rows df) [] = Inr es" and
    rel: "list_all2 (\<lambda>row e. \<exists>lvl sc. row_risk (columns df) (snd row) = Inr (lvl, sc) \<and>
                   e = [(''risk_level'', PStr lvl), (''risk_score'', PInt sc)]) (rows df) es"
    by auto
  from rel have len: "length es = ?n" by (simp add: list_all2_lengthD)
  with ne have es_ne: "es \<noteq> []" by auto
  have ent: "list_all result_entry es"
    unfolding list_all_length result_entry_def
  proof (intro allI impI)
    fix i assume "i < length es"
    with rel have "\<exists>lvl sc. row_risk (columns df) (snd (rows df ! i)) = Inr (lvl, sc) \<and>
                   es ! i = [(''risk_level'', PStr lvl), (''risk_score'', PInt sc)]"
      by (simp add: list_all2_conv_all_nth)
    then show "\<exists>lvl sc. es ! i = [(''risk_level'', PStr lvl), (''risk_score'', PInt sc)]"
      by blast
  qed
  let ?lv = "map (\<lambda>e. snd (e ! 0)) es" and ?sc = "map (\<lambda>e. snd (e ! Suc 0)) es"
  let ?df1 = "\<lparr>columns = columns df @ [''risk_level''],
               rows = map2 (\<lambda>(label, r) v. (label, r @ [v])) (rows df) ?lv\<rparr>"
  have df1: "setitem_column df ''risk_level'' (zip (default_index (length es)) ?lv) = ?df1"
    using setitem_column_new[OF fresh(1) idx, of ?lv] by (simp add: len)
  have idx1: "map fst (rows ?df1) = default_index (length (rows ?df1))"
  proof -
    have "map fst (map2 (\<lambda>(label, r) v. (label, r @ [v])) (rows df) ?lv) = map fst (rows df)"
      by (rule map_fst_with_cells) (simp add: len)
    moreover have "length (map2 (\<lambda>(label, r) v. (label, r @ [v])) (rows df) ?lv) = ?n"
      by (simp add: len)
    ultimately show ?thesis using idx by (simp only: select_convs)
  qed
  have df2: "setitem_column ?df1 ''risk_score'' (zip (default_index (length es)) ?sc) =
        \<lparr>columns = (columns df @ [''risk_level'']) @ [''risk_score''],
         rows = map2 (\<lambda>(label, r) v. (label, r @ [v]))
                  (map2 (\<lambda>(label, r) v. (label, r @ [v])) (rows df) ?lv) ?sc\<rparr>"
    using setitem_column_new[of "''risk_score''" ?df1, OF _ idx1, of ?sc]
    by (simp add: fresh len)
  have rws: "map2 (\<lambda>(label, r) v. (label, r @ [v]))
               (map2 (\<lambda>(label, r) v. (label, r @ [v])) (rows df) ?lv) ?sc
             = map2 (\<lambda>(label, r) e. (label, r @ map snd e)) (rows df) es"
    by (rule append_result_cells[OF ent len])
  have "batch_analysis df = Inr (StDataframe
            \<lparr>columns = columns df @ [''risk_level'', ''risk_score''],
             rows = map2 (\<lambda>(label, r) e. (label, r @ map snd e)) (rows df) es\<rparr>)"
    unfolding batch_analysis_def
    by (simp add: req loop and_then_def Let_def getitem_column_entries[OF ent es_ne]
        df1 df2 rws)
  with rel show ?thesis by blast
qed

lemma missing_columns_iff:
  "missing_columns df \<noteq> [] \<longleftrightarrow> \<not> list_all (\<lambda>col. col \<in> set (columns df)) required_columns"
  by (auto simp add: missing_columns_def filter_empty_conv list_all_iff)

text \<open>
  Two tables for which the batch page does not attach to each row its own result. A file
  with the header and no data line: the
  table of results has no column, and reading its risk_level column raises. A file whose
  data lines carry one field more than the header, here the labels 1 and 0: the results
  are attached by label, so each row receives the level and the score of the other row.
\<close>

lemma batch_analysis_header_only:
  "batch_analysis \<lparr>columns = [''temperature'', ''humidity'', ''duration'', ''activity''], rows = []\<rparr>
     = Inl (KeyError (PStr ''risk_level''))"
  by (simp add: batch_analysis_def required_columns_def and_then_def DataFrame_def
      getitem_column_def default_index_def)

lemma batch_analysis_labels_from_file:
  "batch_analysis
     \<lparr>columns = [''temperature'', ''humidity'', ''duration'', ''activity''],
      rows = [(PInt 1, [PInt 35, PInt 60, PInt 4, PStr ''Moderate'']),
              (PInt 0, [PInt 40, PInt 75, PInt 6, PStr ''Heavy''])]\<rparr>
   = Inr (StDataframe
     \<lparr>columns = [''temperature'', ''humidity'', ''duration'', ''activity'',
                 ''risk_level'', ''risk_score''],
      rows = [(PInt 1, [PInt 35, PInt 60, PInt 4, PStr ''Moderate'', PStr ''High'', PInt 10]),
              (PInt 0, [PInt 40, PInt 75, PInt 6, PStr ''Heavy'', PStr ''Low'', PInt 4])]\<rparr>)"
  by (simp add: batch_analysis_def required_columns_def and_then_def row_result_def row_risk_def
      row_get_def calculate_risk_def temp_step_def humidity_step_def hours_step_def
      activity_step_def activity_scores_def level_of_def DataFrame_def getitem_column_def
      setitem_column_def series_at_def cell_at_def default_index_def Let_def upt_rec)

section \<open>The claims about the calculator\<close>

text \<open>
  Claim C1. For a temperature in [25,50], a humidity in [30,90], a duration in [1,10] and
  an activity among Light, Moderate and Heavy, each of the four statements contributes the
  value of the rule table (3, 2 or 0 for the temperature; 2 or 0 for the humidity; 2 or 0
  for the duration; 1, 2 or 3 for the activity), \<^verbatim>\<open>calculate_risk\<close> returns the
  sum of these four values as the score, and the score lies between 1 and 12.
\<close>

theorem score_is_sum_of_rule_table:
  assumes "25 \<le> t" "t \<le> 50" "30 \<le> h" "h \<le> 90" "1 \<le> d" "d \<le> 10" "a \<in> activities"
  shows "temp_step (PInt t) 0 = Inr (spec_temperature_points t) \<and>
         humidity_step (PInt h) 0 = Inr (spec_humidity_points h) \<and>
         hours_step (PInt d) 0 = Inr (spec_duration_points d) \<and>
         activity_step (PStr a) 0 = Inr (spec_activity_points a) \<and>
         calculate_risk (PInt t) (PInt h) (PInt d) (PStr a) =
            Inr (level_of (spec_temperature_points t + spec_humidity_points h
                           + spec_duration_points d + spec_activity_points a),
                 spec_temperature_points t + spec_humidity_points h
                           + spec_duration_points d + spec_activity_points a) \<and>
         1 \<le> spec_temperature_points t + spec_humidity_points h
               + spec_duration_points d + spec_activity_points a \<and>
         spec_temperature_points t + spec_humidity_points h
               + spec_duration_points d + spec_activity_points a \<le> 12"
proof -
  let ?ct = "spec_temperature_points t" and ?ch = "spec_humidity_points h"
  let ?cd = "spec_duration_points d" and ?ca = "spec_activity_points a"
  have lo: "1 \<le> ?ct + ?ch + ?cd + ?ca"
    using spec_points_bounds(1)[of t] spec_points_bounds(3)[of h] spec_points_bounds(5)[of d]
      spec_activity_points_bounds[OF assms(7)] by linarith
  have hi: "?ct + ?ch + ?cd + ?ca \<le> 12"
    using spec_points_bounds(2)[of t] spec_points_bounds(4)[of h] spec_points_bounds(6)[of d]
      spec_activity_points_bounds[OF assms(7)] by linarith
  show ?thesis
    using lo hi calculate_risk_ints[OF assms(7), of t h d]
    by (simp add: temp_step_int humidity_step_int hours_step_int activity_step_known[OF assms(7)])
qed

theorem score_is_sum_of_rule_table_witness:
  "calculate_risk (PInt 36) (PInt 60) (PInt 4) (PStr ''Moderate'') = Inr (''Low'', 4) \<and>
   calculate_risk (PInt 40) (PInt 75) (PInt 6) (PStr ''Heavy'') = Inr (''High'', 10)"
proof -
  have m: "''Moderate'' \<in> activities" and hv: "''Heavy'' \<in> activities"
    by (simp_all add: activities_def)
  from score_is_sum_of_rule_table[of 36 60 4 "''Moderate''", OF _ _ _ _ _ _ m]
  have "calculate_risk (PInt 36) (PInt 60) (PInt 4) (PStr ''Moderate'') = Inr (''Low'', 4)"
    by (simp add: spec_temperature_points_def spec_humidity_points_def
        spec_duration_points_def spec_activity_points_def level_of_def)
  moreover from score_is_sum_of_rule_table[of 40 75 6 "''Heavy''", OF _ _ _ _ _ _ hv]
  have "calculate_risk (PInt 40) (PInt 75) (PInt 6) (PStr ''Heavy'') = Inr (''High'', 10)"
    by (simp add: spec_temperature_points_def spec_humidity_points_def
        spec_duration_points_def spec_activity_points_def level_of_def)
  ultimately show ?thesis by simp
qed

text \<open>
  Claim C2. For every temperature \<open>t\<close>, the temperature statement adds 3 to the running
  score when \<open>t \<ge> 40\<close>, 2 when \<open>35 \<le> t < 40\<close>, and nothing when \<open>t < 35\<close>.
\<close>

theorem temperature_contribution:
  "(40 \<le> t \<longrightarrow> temp_step (PInt t) s = Inr (s + 3)) \<and>
   (35 \<le> t \<and> t < 40 \<longrightarrow> temp_step (PInt t) s = Inr (s + 2)) \<and>
   (t < 35 \<longrightarrow> temp_step (PInt t) s = Inr (s + 0))"
  by (simp add: temp_step_int spec_temperature_points_def)

theorem temperature_contribution_witness:
  "temp_step (PInt 42) 0 = Inr 3 \<and> temp_step (PInt 37) 3 = Inr 5 \<and> temp_step (PInt 28) 1 = Inr 1"
  using temperature_contribution[of 42 0] temperature_contribution[of 37 3]
    temperature_contribution[of 28 1]
  by simp

text \<open>
  Claim C3. The humidity statement adds 2 when the humidity is at least 70 and nothing
  otherwise; the duration statement adds 2 when the duration is at least 6 and nothing
  otherwise; the activity statement adds 1 for Light, 2 for Moderate and 3 for Heavy, and
  these three are the only keys of the dictionary.
\<close>

theorem other_contributions:
  "(70 \<le> h \<longrightarrow> humidity_step (PInt h) s = Inr (s + 2)) \<and>
   (\<not> 70 \<le> h \<longrightarrow> humidity_step (PInt h) s = Inr (s + 0)) \<and>
   (6 \<le> d \<longrightarrow> hours_step (PInt d) s = Inr (s + 2)) \<and>
   (\<not> 6 \<le> d \<longrightarrow> hours_step (PInt d) s = Inr (s + 0)) \<and>
   activity_step (PStr ''Light'') s = Inr (s + 1) \<and>
   activity_step (PStr ''Moderate'') s = Inr (s + 2) \<and>
   activity_step (PStr ''Heavy'') s = Inr (s + 3) \<and>
   set (map fst activity_scores) = activities"
  by (simp add: humidity_step_int hours_step_int spec_humidity_points_def
      spec_duration_points_def activity_step_def and_then_def map_of_activity_scores)
     (simp add: activity_scores_def activities_def)

theorem other_contributions_witness:
  "humidity_step (PInt 75) 3 = Inr 5 \<and> humidity_step (PInt 60) 3 = Inr 3 \<and>
   hours_step (PInt 6) 5 = Inr 7 \<and> hours_step (PInt 4) 5 = Inr 5"
  using other_contributions[of 75 3 6 ] other_contributions[of 60 3 4]
    other_contributions[of 75 5 6] other_contributions[of 75 5 4]
  by simp

text \<open>
  Claim C4. Whenever \<^verbatim>\<open>calculate_risk\<close> returns a level and a score, the level is
  High exactly when the score is at least 8, Moderate exactly when it is between 5 and 7,
  and Low exactly when it is at most 4.
\<close>

theorem level_thresholds:
  assumes "calculate_risk temp humidity hours activity = Inr (lvl, sc)"
  shows "(lvl = ''High'' \<longleftrightarrow> 8 \<le> sc) \<and> (lvl = ''Moderate'' \<longleftrightarrow> 5 \<le> sc \<and> sc \<le> 7) \<and>
         (lvl = ''Low'' \<longleftrightarrow> sc \<le> 4)"
  using calculate_risk_level[OF assms] level_of_cases[of sc] by simp

theorem level_thresholds_witness:
  "calculate_risk (PInt 40) (PInt 75) (PInt 6) (PStr ''Heavy'') = Inr (''High'', 10) \<and>
   ((''High'' = ''High'') \<longleftrightarrow> (8::int) \<le> 10) \<and> ((''High'' = ''Low'') \<longleftrightarrow> (10::int) \<le> 4)"
  using sample_heavy level_thresholds[OF sample_heavy] by simp

text \<open>
  Claim C5. The level chosen from the score is monotonic: for scores \<open>s1 \<le> s2\<close> both
  levels are among Low, Moderate and High, and the level of \<open>s1\<close> is not above the
  level of \<open>s2\<close> in the order Low < Moderate < High.
\<close>

theorem level_monotone:
  assumes "s1 \<le> s2"
  shows "\<exists>r1 r2. level_rank (level_of s1) = Some r1 \<and> level_rank (level_of s2) = Some r2 \<and> r1 \<le> r2"
  using assms by (simp add: level_rank_def level_of_def)

theorem level_monotone_witness:
  "\<exists>r1 r2. level_rank (level_of 4) = Some r1 \<and> level_rank (level_of 5) = Some r2 \<and> r1 \<le> r2"
  using level_monotone[of 4 5] by simp

text \<open>
  Claim C6. For an activity that is not one of Light, Moderate and Heavy, and any integer
  numeric inputs, \<^verbatim>\<open>calculate_risk\<close> returns no score: the dictionary subscript
  raises \<^verbatim>\<open>KeyError\<close> carrying the unrecognised activity. No contribution is
  defaulted.
\<close>

theorem unknown_activity_raises:
  assumes "activity \<notin> PStr ` activities"
  shows "calculate_risk (PInt t) (PInt h) (PInt d) activity = Inl (KeyError activity)"
  by (simp add: calculate_risk_def temp_step_int humidity_step_int hours_step_int
      activity_step_def and_then_def activity_lookup_unknown[OF assms])

theorem unknown_activity_raises_witness:
  "calculate_risk (PInt 35) (PInt 60) (PInt 4) (PStr ''Extreme'') = Inl (KeyError (PStr ''Extreme''))"
proof -
  have "PStr ''Extreme'' \<notin> PStr ` activities" by (auto simp add: activities_def)
  from unknown_activity_raises[OF this] show ?thesis .
qed

text \<open>
  Claim C10. For inputs in the declared ranges and an activity among Light, Moderate and
  Heavy, the score is at most 10, so 11 and 12 never occur; 10 is attained whenever the
  temperature is at least 40, the humidity at least 70, the duration at least 6 and the
  activity Heavy.
\<close>

theorem score_at_most_ten:
  assumes "25 \<le> t" "t \<le> 50" "30 \<le> h" "h \<le> 90" "1 \<le> d" "d \<le> 10" "a \<in> activities"
  shows "(\<exists>lvl sc. calculate_risk (PInt t) (PInt h) (PInt d) (PStr a) = Inr (lvl, sc) \<and>
            sc \<le> 10 \<and> sc \<noteq> 11 \<and> sc \<noteq> 12) \<and>
         (40 \<le> t \<and> 70 \<le> h \<and> 6 \<le> d \<and> a = ''Heavy'' \<longrightarrow>
            calculate_risk (PInt t) (PInt h) (PInt d) (PStr a) = Inr (''High'', 10))"
proof -
  let ?sc = "spec_temperature_points t + spec_humidity_points h + spec_duration_points d
                   + spec_activity_points a"
  have "?sc \<le> 10"
    using spec_points_bounds(2)[of t] spec_points_bounds(4)[of h] spec_points_bounds(6)[of d]
      spec_activity_points_bounds[OF assms(7)] by linarith
  moreover have "40 \<le> t \<and> 70 \<le> h \<and> 6 \<le> d \<and> a = ''Heavy'' \<longrightarrow> ?sc = 10"
    by (simp add: spec_temperature_points_def spec_humidity_points_def
        spec_duration_points_def spec_activity_points_def)
  ultimately show ?thesis
    using calculate_risk_ints[OF assms(7), of t h d] by (auto simp add: level_of_def)
qed

theorem score_at_most_ten_witness:
  "calculate_risk (PInt 45) (PInt 80) (PInt 8) (PStr ''Heavy'') = Inr (''High'', 10)"
proof -
  have a: "''Heavy'' \<in> activities" by (simp add: activities_def)
  from score_at_most_ten[of 45 80 8 "''Heavy''", OF _ _ _ _ _ _ a] show ?thesis by simp
qed

text \<open>
  Claim C7 says that a numeric input outside its declared range is rejected with a
  validation error naming the field. \<^verbatim>\<open>calculate_risk\<close> has no range check: a
  temperature of 60, outside [25,50], is scored like any temperature of at least 40.
\<close>

theorem out_of_range_is_scored_counterexample:
  "\<not> (25 \<le> (60::int) \<and> (60::int) \<le> 50) \<and>
   calculate_risk (PInt 60) (PInt 50) (PInt 3) (PStr ''Light'') = Inr (''Low'', 4)"
  by (simp add: calculate_risk_def temp_step_def humidity_step_def hours_step_def
      activity_step_def and_then_def activity_scores_def level_of_def)

text \<open>
  Claim C7, as amended. \<^verbatim>\<open>calculate_risk\<close> does not reject a numeric input outside
  its declared range: for integer inputs of which at least one is out of range, and a known
  activity, it returns the score given by the same threshold rules and the level of that
  score. The ranges are kept by the bounds of the input widgets only.
\<close>

theorem out_of_range_is_scored:
  assumes "t < 25 \<or> 50 < t \<or> h < 30 \<or> 90 < h \<or> d < 1 \<or> 10 < d" and "a \<in> activities"
  shows "\<exists>sc. calculate_risk (PInt t) (PInt h) (PInt d) (PStr a) = Inr (level_of sc, sc) \<and>
          sc = spec_temperature_points t + spec_humidity_points h + spec_duration_points d
                   + spec_activity_points a"
  using calculate_risk_ints[OF assms(2), of t h d] by simp

theorem out_of_range_is_scored_witness:
  "\<exists>sc. calculate_risk (PInt 20) (PInt 95) (PInt 12) (PStr ''Moderate'') = Inr (level_of sc, sc) \<and> sc = 6"
proof -
  have a: "''Moderate'' \<in> activities" by (simp add: activities_def)
  have r: "(20::int) < 25 \<or> 50 < (20::int) \<or> (95::int) < 30 \<or> 90 < (95::int) \<or> (12::int) < 1 \<or> 10 < (12::int)"
    by simp
  from out_of_range_is_scored[OF r a] show ?thesis
    by (simp add: spec_temperature_points_def spec_humidity_points_def
        spec_duration_points_def spec_activity_points_def)
qed

section \<open>The claims about batch analysis\<close>

text \<open>
  Claim C8, as amended. For a table of \<open>N \<ge> 1\<close> rows with the default index
  \<open>0, \<dots>, N - 1\<close> (every data line of the file has as many fields as the header), each row
  with valid temperature, humidity, duration and activity fields, and with no column named
  risk_level or risk_score yet, batch processing returns a table of exactly \<open>N\<close> rows in
  the order of the input: row \<open>i\<close> of the result is row \<open>i\<close> of the input, with its
  label and its cells unchanged, and with the level and the score that
  \<^verbatim>\<open>calculate_risk\<close> gives for that row appended as the columns risk_level and
  risk_score.
\<close>

theorem batch_rows_preserved:
  assumes "rows df \<noteq> []"
    and "list_all (\<lambda>row. valid_row (columns df) (snd row)) (rows df)"
    and "''risk_level'' \<notin> set (columns df)" and "''risk_score'' \<notin> set (columns df)"
    and "map fst (rows df) = default_index (length (rows df))"
  shows "\<exists>out. batch_analysis df = Inr (StDataframe out) \<and>
           columns out = columns df @ [''risk_level'', ''risk_score''] \<and>
           length (rows out) = length (rows df) \<and>
           (\<forall>i < length (rows df). \<exists>lvl sc.
              row_risk (columns df) (snd (rows df ! i)) = Inr (lvl, sc) \<and>
              rows out ! i = (fst (rows df ! i), snd (rows df ! i) @ [PStr lvl, PInt sc]))"
proof -
  from batch_analysis_valid[OF assms] obtain es where
    rel: "list_all2 (\<lambda>row e. \<exists>lvl sc. row_risk (columns df) (snd row) = Inr (lvl, sc) \<and>
                   e = [(''risk_level'', PStr lvl), (''risk_score'', PInt sc)]) (rows df) es"
    and res: "batch_analysis df = Inr (StDataframe
            \<lparr>columns = columns df @ [''risk_level'', ''risk_score''],
             rows = map2 (\<lambda>(label, r) e. (label, r @ map snd e)) (rows df) es\<rparr>)"
    by blast
  from rel have len: "length es = length (rows df)" by (simp add: list_all2_lengthD)
  have "\<exists>lvl sc. row_risk (columns df) (snd (rows df ! i)) = Inr (lvl, sc) \<and>
          map2 (\<lambda>(label, r) e. (label, r @ map snd e)) (rows df) es ! i
            = (fst (rows df ! i), snd (rows df ! i) @ [PStr lvl, PInt sc])"
    if "i < length (rows df)" for i
  proof -
    from rel that obtain lvl sc where
      "row_risk (columns df) (snd (rows df ! i)) = Inr (lvl, sc)"
      "es ! i = [(''risk_level'', PStr lvl), (''risk_score'', PInt sc)]"
      by (auto simp add: list_all2_conv_all_nth)
    with that len show ?thesis by (simp add: case_prod_beta)
  qed
  with res len show ?thesis by simp
qed

theorem batch_rows_preserved_witness:
  "\<exists>out. batch_analysis
       \<lparr>columns = [''temperature'', ''humidity'', ''duration'', ''activity''],
        rows = [(PInt 0, [PInt 35, PInt 60, PInt 4, PStr ''Moderate'']),
                (PInt 1, [PInt 40, PInt 75, PInt 6, PStr ''Heavy'']),
                (PInt 2, [PInt 28, PInt 50, PInt 3, PStr ''Light''])]\<rparr> = Inr (StDataframe out) \<and>
     columns out = [''temperature'', ''humidity'', ''duration'', ''activity'',
                    ''risk_level'', ''risk_score''] \<and>
     length (rows out) = 3 \<and>
     rows out ! 1 = (PInt 1, [PInt 40, PInt 75, PInt 6, PStr ''Heavy'', PStr ''High'', PInt 10])"
proof -
  let ?df = "\<lparr>columns = [''temperature'', ''humidity'', ''duration'', ''activity''],
        rows = [(PInt 0, [PInt 35, PInt 60, PInt 4, PStr ''Moderate'']),
                (PInt 1, [PInt 40, PInt 75, PInt 6, PStr ''Heavy'']),
                (PInt 2, [PInt 28, PInt 50, PInt 3, PStr ''Light''])]\<rparr>"
  have ne: "rows ?df \<noteq> []" by simp
  have valid: "list_all (\<lambda>row. valid_row (columns ?df) (snd row)) (rows ?df)"
    by (simp add: valid_row_def field_is_def row_get_def activities_def)
  have f1: "''risk_level'' \<notin> set (columns ?df)" and f2: "''risk_score'' \<notin> set (columns ?df)"
    by simp_all
  have idx: "map fst (rows ?df) = default_index (length (rows ?df))"
    by (simp add: default_index_def upt_rec)
  from batch_rows_preserved[OF ne valid f1 f2 idx] obtain out where
    b: "batch_analysis ?df = Inr (StDataframe out)"
    and c: "columns out = columns ?df @ [''risk_level'', ''risk_score'']"
    and l: "length (rows out) = length (rows ?df)"
    and r: "\<forall>i < length (rows ?df). \<exists>lvl sc.
              row_risk (columns ?df) (snd (rows ?df ! i)) = Inr (lvl, sc) \<and>
              rows out ! i = (fst (rows ?df ! i), snd (rows ?df ! i) @ [PStr lvl, PInt sc])"
    by blast
  have "row_risk (columns ?df) (snd (rows ?df ! 1)) = Inr (''High'', 10)"
    by (simp add: row_risk_def row_get_def and_then_def sample_heavy)
  moreover from r[THEN spec, of 1] have "\<exists>lvl sc.
              row_risk (columns ?df) (snd (rows ?df ! 1)) = Inr (lvl, sc) \<and>
              rows out ! 1 = (fst (rows ?df ! 1), snd (rows ?df ! 1) @ [PStr lvl, PInt sc])"
    by simp
  ultimately have "rows out ! 1
      = (PInt 1, [PInt 40, PInt 75, PInt 6, PStr ''Heavy'', PStr ''High'', PInt 10])"
    by auto
  with b c l show ?thesis by auto
qed

text \<open>
  Claim C8 says that every input row is kept unchanged with the two result columns
  appended. A table that already has a column named risk_score has that column
  overwritten where it stands: the cell 99 of the input row becomes the score 4, and no
  risk_score column is appended.
\<close>

theorem batch_overwrites_existing_column_counterexample:
  "valid_row [''risk_score'', ''temperature'', ''humidity'', ''duration'', ''activity'']
             [PInt 99, PInt 35, PInt 60, PInt 4, PStr ''Moderate''] \<and>
   batch_analysis
     \<lparr>columns = [''risk_score'', ''temperature'', ''humidity'', ''duration'', ''activity''],
      rows = [(PInt 0, [PInt 99, PInt 35, PInt 60, PInt 4, PStr ''Moderate''])]\<rparr>
   = Inr (StDataframe
     \<lparr>columns = [''risk_score'', ''temperature'', ''humidity'', ''duration'', ''activity'',
                 ''risk_level''],
      rows = [(PInt 0, [PInt 4, PInt 35, PInt 60, PInt 4, PStr ''Moderate'', PStr ''Low''])]\<rparr>)"
  by (simp add: valid_row_def field_is_def row_get_def activities_def
      batch_analysis_def required_columns_def and_then_def row_result_def row_risk_def
      calculate_risk_def temp_step_def humidity_step_def hours_step_def activity_step_def
      activity_scores_def level_of_def DataFrame_def getitem_column_def setitem_column_def
      series_at_def cell_at_def default_index_def Let_def)

text \<open>
  Claim C9, as amended. A table that lacks at least one of the required columns is
  rejected as a whole with the fixed message that lists all four required column names,
  whichever of them are missing; no row is processed (the result does not depend on the
  rows, and no exception of a row can occur).
\<close>

theorem batch_missing_columns_rejected:
  assumes "missing_columns df \<noteq> []"
  shows "batch_analysis df =
           Inr (StError ''CSV must contain: temperature, humidity, duration, activity columns'')"
  using assms unfolding missing_columns_iff by (simp add: batch_analysis_def)

theorem batch_missing_columns_rejected_witness:
  "batch_analysis \<lparr>columns = [''temperature'', ''humidity''],
                   rows = [(PInt 0, [PStr ''hot'', PInt 1])]\<rparr> =
     Inr (StError ''CSV must contain: temperature, humidity, duration, activity columns'')"
proof -
  have "missing_columns \<lparr>columns = [''temperature'', ''humidity''],
                         rows = [(PInt 0, [PStr ''hot'', PInt 1])]\<rparr> \<noteq> []"
    by (simp add: missing_columns_def required_columns_def)
  from batch_missing_columns_rejected[OF this] show ?thesis .
qed

text \<open>
  Claim C9 says that the error identifies the missing column names. A table missing only
  activity and a table missing only temperature are rejected with the same message, so
  the message does not tell which columns are missing.
\<close>

theorem batch_error_names_all_columns_counterexample:
  "missing_columns \<lparr>columns = [''temperature'', ''humidity'', ''duration''],
                    rows = [(PInt 0, [PInt 35, PInt 60, PInt 4])]\<rparr> = [''activity''] \<and>
   missing_columns \<lparr>columns = [''humidity'', ''duration'', ''activity''],
                    rows = [(PInt 0, [PInt 60, PInt 4, PStr ''Light''])]\<rparr> = [''temperature''] \<and>
   batch_analysis \<lparr>columns = [''temperature'', ''humidity'', ''duration''],
                   rows = [(PInt 0, [PInt 35, PInt 60, PInt 4])]\<rparr>
     = Inr (StError ''CSV must contain: temperature, humidity, duration, activity columns'') \<and>
   batch_analysis \<lparr>columns = [''humidity'', ''duration'', ''activity''],
                   rows = [(PInt 0, [PInt 60, PInt 4, PStr ''Light''])]\<rparr>
     = Inr (StError ''CSV must contain: temperature, humidity, duration, activity columns'')"
  by (simp add: missing_columns_def required_columns_def batch_analysis_def)

end
